theory Spec2Isabelle
  imports Complex_Main
begin

section \<open>JavaScript numbers: comparison, \<open>Math.max\<close> and \<open>Math.min\<close>\<close>

text \<open>
  Heights and the threshold are JavaScript numbers: \<open>parseFloat\<close> yields a finite
  value, an infinity or NaN. Comparison, \<open>Math.max\<close> and \<open>Math.min\<close> are exact on
  them (no rounding happens), so a number is modelled as NaN or an extended rational.
  The two signed zeros compare equal in JavaScript and are one value here.
\<close>

datatype ext = NegInf | Fin rat | PosInf

instantiation ext :: linorder
begin

fun less_eq_ext :: "ext \<Rightarrow> ext \<Rightarrow> bool" where
  "less_eq_ext NegInf _ = True"
| "less_eq_ext (Fin a) NegInf = False"
| "less_eq_ext (Fin a) (Fin b) = (a \<le> b)"
| "less_eq_ext (Fin a) PosInf = True"
| "less_eq_ext PosInf PosInf = True"
| "less_eq_ext PosInf _ = False"

definition less_ext :: "ext \<Rightarrow> ext \<Rightarrow> bool" where
  "less_ext x y \<longleftrightarrow> x \<le> y \<and> \<not> y \<le> (x::ext)"

instance
proof
  fix x y z :: ext
  show "x < y \<longleftrightarrow> x \<le> y \<and> \<not> y \<le> x"
    by (simp add: less_ext_def)
  show "x \<le> x"
    by (cases x) simp_all
  show "x \<le> y \<Longrightarrow> y \<le> z \<Longrightarrow> x \<le> z"
    by (cases x; cases y; cases z) simp_all
  show "x \<le> y \<Longrightarrow> y \<le> x \<Longrightarrow> x = y"
    by (cases x; cases y) simp_all
  show "x \<le> y \<or> y \<le> x"
    by (cases x; cases y) auto
qed

end

datatype number = NaN | Val ext

text \<open>The literal \<open>0\<close> of the source.\<close>

definition zero :: number where
  "zero = Val (Fin 0)"

text \<open>\<open>a >= b\<close>, \<open>a <= b\<close> and \<open>a > b\<close>: false as soon as one side is NaN.\<close>

fun js_ge :: "number \<Rightarrow> number \<Rightarrow> bool" where
  "js_ge (Val a) (Val b) = (b \<le> a)"
| "js_ge _ _ = False"

fun js_le :: "number \<Rightarrow> number \<Rightarrow> bool" where
  "js_le (Val a) (Val b) = (a \<le> b)"
| "js_le _ _ = False"

fun js_gt :: "number \<Rightarrow> number \<Rightarrow> bool" where
  "js_gt (Val a) (Val b) = (b < a)"
| "js_gt _ _ = False"

text \<open>
  \<open>Math.max(...ns)\<close> as ECMAScript defines it: the result is NaN as soon as one
  argument is NaN; otherwise the scan starts from \<open>-Infinity\<close> and keeps the highest
  value seen. \<open>Math.min\<close> is its mirror image, starting from \<open>+Infinity\<close>.
\<close>

fun max_scan :: "ext \<Rightarrow> number list \<Rightarrow> number" where
  "max_scan highest [] = Val highest"
| "max_scan highest (NaN # ns) = NaN"
| "max_scan highest (Val x # ns) = max_scan (if highest < x then x else highest) ns"

definition Math_max :: "number list \<Rightarrow> number" where
  "Math_max ns = max_scan NegInf ns"

fun min_scan :: "ext \<Rightarrow> number list \<Rightarrow> number" where
  "min_scan lowest [] = Val lowest"
| "min_scan lowest (NaN # ns) = NaN"
| "min_scan lowest (Val x # ns) = min_scan (if x < lowest then x else lowest) ns"

definition Math_min :: "number list \<Rightarrow> number" where
  "Math_min ns = min_scan PosInf ns"

section \<open>Dates\<close>

text \<open>
  A valid \<open>Date\<close> is read in local time, as date-fns does: the number of its calendar
  day (counted from some fixed day) and the milliseconds elapsed since that day's
  midnight, from 0 to 86399999. \<open>Invalid Date\<close> (what \<open>parse\<close> returns on a malformed
  string) is \<open>None\<close> of \<open>Date option\<close>.
\<close>

record Date =
  day_no :: int
  ms_of_day :: int

definition startOfDay :: "Date \<Rightarrow> Date" where
  "startOfDay d = d\<lparr>ms_of_day := 0\<rparr>"

text \<open>\<open>isSameDay(a, b)\<close>: the two start-of-day instants are equal; never so for an invalid date.\<close>

fun isSameDay :: "Date option \<Rightarrow> Date option \<Rightarrow> bool" where
  "isSameDay (Some a) (Some b) = (startOfDay a = startOfDay b)"
| "isSameDay _ _ = False"

text \<open>\<open>isAfter(a, b)\<close>: \<open>a\<close> is a later instant than \<open>b\<close>.\<close>

definition isAfter :: "Date \<Rightarrow> Date \<Rightarrow> bool" where
  "isAfter a b \<longleftrightarrow> day_no b < day_no a \<or> (day_no a = day_no b \<and> ms_of_day b < ms_of_day a)"

text \<open>
  \<open>differenceInDays(later, earlier)\<close>: the number of full days between the two, rounded
  towards zero. date-fns takes the difference in calendar days and gives one day back
  when the last calendar day is not complete.
\<close>

definition compareLocalAsc :: "Date \<Rightarrow> Date \<Rightarrow> int" where
  "compareLocalAsc a b =
     (if day_no a < day_no b then - 1 else if day_no b < day_no a then 1
      else if ms_of_day a < ms_of_day b then - 1 else if ms_of_day b < ms_of_day a then 1
      else 0)"

definition differenceInDays :: "Date \<Rightarrow> Date \<Rightarrow> int" where
  "differenceInDays later earlier =
     (let sgn = compareLocalAsc later earlier;
          difference = \<bar>day_no later - day_no earlier\<bar>;
          shifted = later\<lparr>day_no := day_no later - sgn * difference\<rparr>;
          isLastDayNotFull = (if compareLocalAsc shifted earlier = - sgn then 1 else 0)
      in sgn * (difference - isLastDayNotFull))"

text \<open>
  \<open>eachDayOfInterval({start, end})\<close>: the midnight of every calendar day from the day
  of \<open>start\<close> to the day of \<open>end\<close>, ascending. The source calls it with the start and
  the end of one month, so that \<open>start\<close> is not after \<open>end\<close>.
\<close>

definition eachDayOfInterval :: "Date \<Rightarrow> Date \<Rightarrow> Date list" where
  "eachDayOfInterval start end = map (\<lambda>k. \<lparr>day_no = k, ms_of_day = 0\<rparr>) [day_no start..day_no end]"

text \<open>
  The functions whose result depends on the text of a string or on the civil calendar
  are parameters of the model: \<open>parse(s, 'yyyy-MM-dd HH:mm', new Date())\<close>,
  \<open>parseFloat\<close>, \<open>startOfMonth\<close>, \<open>endOfMonth\<close> and \<open>format(d, 'yyyyMMdd')\<close>.
\<close>

record lib =
  parse :: "string \<Rightarrow> Date option"
  parseFloat :: "string \<Rightarrow> number"
  startOfMonth :: "Date \<Rightarrow> Date"
  endOfMonth :: "Date \<Rightarrow> Date"
  format_yyyyMMdd :: "Date \<Rightarrow> string"

section \<open>Data model (types.ts)\<close>

datatype tide_type = H | L

record TidePrediction =
  p_t :: string
  p_v :: string
  p_type :: "tide_type option"

record TideEvent =
  time :: "Date option"
  height :: number
  isPeak :: bool
  e_type :: "tide_type option"

record DailyTideData =
  date :: Date
  events :: "TideEvent list"
  maxHeight :: number
  minHeight :: number
  meetsThreshold :: bool

record SavedStation =
  sid :: string
  name :: string

record NotificationSettings =
  enabled :: bool
  leadDays :: int

section \<open>Bucketing the predictions by day (loadTideData, the body of \<open>days.map\<close>)\<close>

definition toEvent :: "lib \<Rightarrow> TidePrediction \<Rightarrow> TideEvent" where
  "toEvent lb p =
     \<lparr>time = parse lb (p_t p), height = parseFloat lb (p_v p), isPeak = True, e_type = p_type p\<rparr>"

definition dayEvents :: "lib \<Rightarrow> TidePrediction list \<Rightarrow> Date \<Rightarrow> TideEvent list" where
  "dayEvents lb hilo day =
     map (toEvent lb) (filter (\<lambda>p. isSameDay (parse lb (p_t p)) (Some day)) hilo)"

definition highHeights :: "TideEvent list \<Rightarrow> number list" where
  "highHeights es = map height (filter (\<lambda>e. e_type e = Some H) es)"

definition processDay :: "lib \<Rightarrow> number \<Rightarrow> TidePrediction list \<Rightarrow> Date \<Rightarrow> DailyTideData" where
  "processDay lb threshold hilo day =
     (let evs = dayEvents lb hilo day;
          heights = highHeights evs;
          maxH = (if heights \<noteq> [] then Math_max heights else zero)
      in \<lparr>date = day,
          events = evs,
          maxHeight = maxH,
          minHeight = (if evs \<noteq> [] then Math_min (map height evs) else zero),
          meetsThreshold = js_ge maxH threshold\<rparr>)"

definition processMonth :: "lib \<Rightarrow> number \<Rightarrow> Date \<Rightarrow> TidePrediction list \<Rightarrow> DailyTideData list" where
  "processMonth lb threshold currentDate hilo =
     map (processDay lb threshold hilo)
       (eachDayOfInterval (startOfMonth lb currentDate) (endOfMonth lb currentDate))"

section \<open>The application state\<close>

text \<open>
  The React state of the component, and what the routines touch of the browser: the
  local storage and the messages posted to the service worker so far. The title and the
  body of a \<open>SHOW_NOTIFICATION\<close> message are formatted from the station, the day and the
  event found; a message is recorded as these three.
\<close>

record app =
  currentDate :: Date
  station :: SavedStation
  threshold :: number
  loading :: bool
  dailyData :: "DailyTideData list"
  error :: "string option"
  notifSettings :: NotificationSettings
  favorites :: "SavedStation list"

record message =
  msg_station :: SavedStation
  msg_day :: Date
  msg_event :: TideEvent

record browser =
  storage :: "string \<rightharpoonup> string"
  posted :: "message list"

text \<open>
  What a call reads of its surroundings: the clock (\<open>new Date()\<close>),
  \<open>Notification.permission\<close> and \<open>navigator.serviceWorker\<close>, which is undefined where
  service workers are not supported and has a null \<open>controller\<close> when no worker controls
  the page.
\<close>

datatype permission = Granted | Denied | Default

datatype service_worker = Unsupported | NoController | Controller

record ambient =
  today :: Date
  notif_permission :: permission
  serviceWorker :: service_worker

section \<open>checkUpcomingTidesForAlerts\<close>

text \<open>\<open>!localStorage.getItem(key)\<close> is false exactly for a stored, non-empty string.\<close>

definition hasItem :: "(string \<rightharpoonup> string) \<Rightarrow> string \<Rightarrow> bool" where
  "hasItem st k = (case st k of None \<Rightarrow> False | Some s \<Rightarrow> s \<noteq> [])"

definition alertKey :: "lib \<Rightarrow> SavedStation \<Rightarrow> Date \<Rightarrow> string" where
  "alertKey lb st d = ''alert_'' @ sid st @ ''_'' @ format_yyyyMMdd lb d"

text \<open>
  One iteration of the \<open>for\<close> loop. \<open>Inr\<close> is the normal end of the iteration; \<open>Inl\<close> is
  the TypeError of reading \<open>controller\<close> of an undefined \<open>navigator.serviceWorker\<close>,
  which ends the whole call.
\<close>

definition alertDay :: "lib \<Rightarrow> ambient \<Rightarrow> app \<Rightarrow> DailyTideData \<Rightarrow> browser \<Rightarrow> browser + browser" where
  "alertDay lb amb a day b =
     (let diff = differenceInDays (date day) (today amb);
          isLeadTimeMet = (diff \<le> leadDays (notifSettings a))
      in if isLeadTimeMet then
           (case find (\<lambda>e. e_type e = Some H \<and> js_ge (height e) (threshold a)) (events day) of
              None \<Rightarrow> Inr b
            | Some maxEvent \<Rightarrow>
                (let key = alertKey lb (station a) (date day)
                 in if \<not> hasItem (storage b) key then
                      (case serviceWorker amb of
                         Unsupported \<Rightarrow> Inl b
                       | NoController \<Rightarrow> Inr b
                       | Controller \<Rightarrow>
                           Inr (b\<lparr>posted := posted b @
                                     [\<lparr>msg_station = station a, msg_day = date day,
                                       msg_event = maxEvent\<rparr>],
                                   storage := (storage b)(key \<mapsto> ''sent'')\<rparr>))
                    else Inr b))
         else Inr b)"

fun alertLoop :: "lib \<Rightarrow> ambient \<Rightarrow> app \<Rightarrow> DailyTideData list \<Rightarrow> browser \<Rightarrow> browser" where
  "alertLoop lb amb a [] b = b"
| "alertLoop lb amb a (day # rest) b =
     (case alertDay lb amb a day b of
        Inl b' \<Rightarrow> b'
      | Inr b' \<Rightarrow> alertLoop lb amb a rest b')"

definition upcomingCrossings :: "ambient \<Rightarrow> app \<Rightarrow> DailyTideData list \<Rightarrow> DailyTideData list" where
  "upcomingCrossings amb a data =
     filter (\<lambda>d. meetsThreshold d \<and> isAfter (date d) (today amb) \<and>
                 differenceInDays (date d) (today amb) \<le> leadDays (notifSettings a) + 7) data"

definition checkUpcomingTidesForAlerts ::
    "lib \<Rightarrow> ambient \<Rightarrow> app \<Rightarrow> DailyTideData list \<Rightarrow> browser \<Rightarrow> browser" where
  "checkUpcomingTidesForAlerts lb amb a data b =
     (if \<not> enabled (notifSettings a) \<or> notif_permission amb \<noteq> Granted then b
      else alertLoop lb amb a (upcomingCrossings amb a data) b)"

section \<open>loadTideData\<close>

text \<open>
  \<open>fetchTidePredictions\<close> is the external service: called with the station id and the
  two formatted dates, it throws (\<open>Inl\<close>) or returns the predictions (\<open>Inr\<close>).
\<close>

type_synonym fetcher = "string \<Rightarrow> string \<Rightarrow> string \<Rightarrow> string + TidePrediction list"

definition loadError :: string where
  "loadError = ''Could not load tide data for this station. Please try another.''"

definition loadTideData :: "lib \<Rightarrow> fetcher \<Rightarrow> ambient \<Rightarrow> app \<times> browser \<Rightarrow> app \<times> browser" where
  "loadTideData lb fetchTidePredictions amb ab =
     (let a = fst ab; b = snd ab;
          a1 = a\<lparr>loading := True, error := None\<rparr>;
          beginDate = format_yyyyMMdd lb (startOfMonth lb (currentDate a));
          endDate = format_yyyyMMdd lb (endOfMonth lb (currentDate a))
      in case fetchTidePredictions (sid (station a)) beginDate endDate of
           Inl err \<Rightarrow> (a1\<lparr>error := Some loadError, loading := False\<rparr>, b)
         | Inr hilo \<Rightarrow>
             (let processed = processMonth lb (threshold a) (currentDate a) hilo
              in (a1\<lparr>dailyData := processed, loading := False\<rparr>,
                  checkUpcomingTidesForAlerts lb amb a processed b)))"

section \<open>Favorites and the list view\<close>

definition toggleFavorite :: "app \<Rightarrow> app" where
  "toggleFavorite a =
     a\<lparr>favorites :=
        (let prev = favorites a; isFav = list_ex (\<lambda>f. sid f = sid (station a)) prev
         in if isFav then filter (\<lambda>f. sid f \<noteq> sid (station a)) prev
            else prev @ [station a])\<rparr>"

text \<open>The handler of the remove button shown beside the favorite \<open>fav\<close>.\<close>

definition removeFavorite :: "SavedStation \<Rightarrow> app \<Rightarrow> app" where
  "removeFavorite fav a = a\<lparr>favorites := filter (\<lambda>f. sid f \<noteq> sid fav) (favorites a)\<rparr>"

definition setStation :: "SavedStation \<Rightarrow> app \<Rightarrow> app" where
  "setStation st a = a\<lparr>station := st\<rparr>"


text \<open>
  The effect that persists the settings (the \<open>useEffect\<close> on \<open>favorites\<close> and
  \<open>notifSettings\<close>): it stores the two JSON texts under its two keys.
\<close>

definition persistSettings :: "string \<Rightarrow> string \<Rightarrow> browser \<Rightarrow> browser" where
  "persistSettings favoritesJson notifSettingsJson b =
     b\<lparr>storage := (storage b)(''tidewatch_favorites'' \<mapsto> favoritesJson,
                               ''tidewatch_notif_settings'' \<mapsto> notifSettingsJson)\<rparr>"


section \<open>The notions the properties are stated with\<close>

text \<open>
  The greatest and the least of a non-empty list of numbers, as order-theoretic maximum
  and minimum of the values; they are NaN when one of the numbers is NaN, as no order
  relates NaN to a value.
\<close>

fun vals :: "number list \<Rightarrow> ext list" where
  "vals [] = []"
| "vals (NaN # ns) = vals ns"
| "vals (Val x # ns) = x # vals ns"

definition maximum :: "number list \<Rightarrow> number" where
  "maximum ns = (if NaN \<in> set ns then NaN else Val (Max (set (vals ns))))"

definition minimum :: "number list \<Rightarrow> number" where
  "minimum ns = (if NaN \<in> set ns then NaN else Val (Min (set (vals ns))))"

text \<open>
  The maximum height among the high-tide events of a day, taken as 0 when the day has
  none.
\<close>

definition maxHighTide :: "TideEvent list \<Rightarrow> number" where
  "maxHighTide es =
     (let hs = [height e. e \<leftarrow> es, e_type e = Some H] in if hs = [] then zero else maximum hs)"

text \<open>What the predictions service answers to the request of \<open>loadTideData\<close>.\<close>

definition fetchOutcome :: "lib \<Rightarrow> fetcher \<Rightarrow> app \<Rightarrow> string + TidePrediction list" where
  "fetchOutcome lb fetchTidePredictions a =
     fetchTidePredictions (sid (station a))
       (format_yyyyMMdd lb (startOfMonth lb (currentDate a)))
       (format_yyyyMMdd lb (endOfMonth lb (currentDate a)))"

text \<open>The heights of all the events of a day.\<close>

definition allHeights :: "TideEvent list \<Rightarrow> number list" where
  "allHeights es = [height e. e \<leftarrow> es]"



text \<open>The parsed timestamp of a prediction falls on the calendar day of \<open>day\<close>.\<close>

definition fallsOn :: "lib \<Rightarrow> TidePrediction \<Rightarrow> Date \<Rightarrow> bool" where
  "fallsOn lb p day = (case parse lb (p_t p) of None \<Rightarrow> False | Some ts \<Rightarrow> day_no ts = day_no day)"

text \<open>The sent-marker key of the station and day a message is about.\<close>

definition msgKey :: "lib \<Rightarrow> message \<Rightarrow> string" where
  "msgKey lb m = alertKey lb (msg_station m) (msg_day m)"

text \<open>The messages posted between the browser states \<open>b\<close> and \<open>b'\<close>.\<close>

definition newlyPosted :: "browser \<Rightarrow> browser \<Rightarrow> message list" where
  "newlyPosted b b' = drop (length (posted b)) (posted b')"

text \<open>
  A day meets the threshold, its date is strictly after today, and it lies within the
  lead window.
\<close>

definition eligible :: "ambient \<Rightarrow> app \<Rightarrow> DailyTideData \<Rightarrow> bool" where
  "eligible amb a d \<longleftrightarrow>
     meetsThreshold d \<and> isAfter (date d) (today amb) \<and>
     differenceInDays (date d) (today amb) \<le> leadDays (notifSettings a)"

text \<open>
  What happens to the storage of a browser over time: runs of
  \<open>checkUpcomingTidesForAlerts\<close>, each with its own surroundings, state and data, and
  the persisting of the settings.
\<close>

datatype event = AlertRun ambient app "DailyTideData list" | Persist string string

fun step :: "lib \<Rightarrow> browser \<Rightarrow> event \<Rightarrow> browser" where
  "step lb b (AlertRun amb a data) = checkUpcomingTidesForAlerts lb amb a data b"
| "step lb b (Persist favoritesJson notifSettingsJson) = persistSettings favoritesJson notifSettingsJson b"

definition history :: "lib \<Rightarrow> browser \<Rightarrow> event list \<Rightarrow> browser" where
  "history lb b evs = foldl (step lb) b evs"

text \<open>What one run adds: the messages \<open>ms\<close>, and the marker of each of them.\<close>

definition adds :: "lib \<Rightarrow> browser \<Rightarrow> message list \<Rightarrow> browser \<Rightarrow> bool" where
  "adds lb b ms b' \<longleftrightarrow>
     posted b' = posted b @ ms \<and> distinct (map (msgKey lb) ms) \<and>
     (\<forall>k. if k \<in> msgKey lb ` set ms then \<not> hasItem (storage b) k \<and> storage b' k = Some ''sent''
          else storage b' k = storage b k)"

text \<open>What one iteration does: nothing, or it posts the message of the day and sets its marker.\<close>

definition dayMessage :: "app \<Rightarrow> DailyTideData \<Rightarrow> TideEvent \<Rightarrow> message" where
  "dayMessage a d ev = \<lparr>msg_station = station a, msg_day = date d, msg_event = ev\<rparr>"

text \<open>
  Between two states of the browser the messages \<open>ms\<close> were posted, each under a
  marker that was missing before and is set after, and no marker was lost.
\<close>

definition grows :: "lib \<Rightarrow> browser \<Rightarrow> message list \<Rightarrow> browser \<Rightarrow> bool" where
  "grows lb b ms b' \<longleftrightarrow>
     posted b' = posted b @ ms \<and> distinct (map (msgKey lb) ms) \<and>
     (\<forall>m \<in> set ms. \<not> hasItem (storage b) (msgKey lb m) \<and> hasItem (storage b') (msgKey lb m)) \<and>
     (\<forall>st d. hasItem (storage b) (alertKey lb st d) \<longrightarrow> hasItem (storage b') (alertKey lb st d))"

text \<open>
  The operations on the favorites: the star button, the remove button of a listed
  favorite, and, between them, a change of the current station.
\<close>

datatype action = ToggleFavorite | RemoveFavorite SavedStation | SetStation SavedStation

fun act :: "app \<Rightarrow> action \<Rightarrow> app" where
  "act a ToggleFavorite = toggleFavorite a"
| "act a (RemoveFavorite fav) = removeFavorite fav a"
| "act a (SetStation st) = setStation st a"

text \<open>No two entries of the list share an id.\<close>

definition uniqueIds :: "SavedStation list \<Rightarrow> bool" where
  "uniqueIds favs \<longleftrightarrow> distinct (map sid favs)"


section \<open>A concrete month\<close>

text \<open>
  January 2025 at station 9414290, days numbered from 1970-01-01 (2025-01-01 is day
  20089), with the library functions given on the strings and dates that occur.
\<close>

definition demo_parse :: "string \<Rightarrow> Date option" where
  "demo_parse = map_of
     [(''2025-01-01 03:12'', \<lparr>day_no = 20089, ms_of_day = 11520000\<rparr>),
      (''2025-01-01 09:48'', \<lparr>day_no = 20089, ms_of_day = 35280000\<rparr>),
      (''2025-01-02 10:30'', \<lparr>day_no = 20090, ms_of_day = 37800000\<rparr>),
      (''2025-01-02 17:05'', \<lparr>day_no = 20090, ms_of_day = 61500000\<rparr>),
      (''2025-01-03 04:00'', \<lparr>day_no = 20091, ms_of_day = 14400000\<rparr>)]"

definition demo_parseFloat :: "string \<Rightarrow> number" where
  "demo_parseFloat s =
     (case map_of [(''1.2'', Val (Fin (12 / 10))), (''5.1'', Val (Fin (51 / 10))),
                   (''6.4'', Val (Fin (64 / 10))), (''0.8'', Val (Fin (8 / 10))),
                   (''-0.3'', Val (Fin (- 3 / 10)))] s of
        Some n \<Rightarrow> n | None \<Rightarrow> NaN)"

definition demo_format :: "Date \<Rightarrow> string" where
  "demo_format d =
     (if day_no d = 20089 then ''20250101'' else if day_no d = 20090 then ''20250102''
      else if day_no d = 20091 then ''20250103'' else if day_no d = 20119 then ''20250131''
      else ''202501xx'')"

definition demo_lib :: lib where
  "demo_lib = \<lparr>parse = demo_parse, parseFloat = demo_parseFloat,
                startOfMonth = (\<lambda>d. \<lparr>day_no = 20089, ms_of_day = 0\<rparr>),
                endOfMonth = (\<lambda>d. \<lparr>day_no = 20119, ms_of_day = 86399999\<rparr>),
                format_yyyyMMdd = demo_format\<rparr>"

definition demo_hilo :: "TidePrediction list" where
  "demo_hilo =
     [\<lparr>p_t = ''2025-01-01 03:12'', p_v = ''1.2'', p_type = Some L\<rparr>,
      \<lparr>p_t = ''2025-01-01 09:48'', p_v = ''5.1'', p_type = Some H\<rparr>,
      \<lparr>p_t = ''2025-01-02 10:30'', p_v = ''6.4'', p_type = Some H\<rparr>,
      \<lparr>p_t = ''2025-01-02 17:05'', p_v = ''0.8'', p_type = Some L\<rparr>,
      \<lparr>p_t = ''2025-01-03 04:00'', p_v = ''-0.3'', p_type = Some L\<rparr>]"

definition demo_fetch :: fetcher where
  "demo_fetch stationId beginDate endDate = Inr demo_hilo"

definition demo_app :: app where
  "demo_app = \<lparr>currentDate = \<lparr>day_no = 20089, ms_of_day = 30000000\<rparr>,
                station = \<lparr>sid = ''9414290'', name = ''San Francisco, CA''\<rparr>,
                threshold = Val (Fin 6), loading = False, dailyData = [], error = None,
                notifSettings = \<lparr>enabled = True, leadDays = 1\<rparr>, favorites = []\<rparr>"

definition demo_ambient :: ambient where
  "demo_ambient = \<lparr>today = \<lparr>day_no = 20089, ms_of_day = 30000000\<rparr>,
                    notif_permission = Granted, serviceWorker = Controller\<rparr>"

definition demo_browser :: browser where
  "demo_browser = \<lparr>storage = Map.empty, posted = []\<rparr>"

definition demo_day2 :: DailyTideData where
  "demo_day2 =
     \<lparr>date = \<lparr>day_no = 20090, ms_of_day = 0\<rparr>,
      events =
        [\<lparr>time = Some \<lparr>day_no = 20090, ms_of_day = 37800000\<rparr>, height = Val (Fin (64 / 10)),
          isPeak = True, e_type = Some H\<rparr>,
         \<lparr>time = Some \<lparr>day_no = 20090, ms_of_day = 61500000\<rparr>, height = Val (Fin (8 / 10)),
          isPeak = True, e_type = Some L\<rparr>],
      maxHeight = Val (Fin (64 / 10)), minHeight = Val (Fin (8 / 10)), meetsThreshold = True\<rparr>"

definition demo_day4 :: DailyTideData where
  "demo_day4 =
     \<lparr>date = \<lparr>day_no = 20092, ms_of_day = 0\<rparr>, events = [],
      maxHeight = Val (Fin 0), minHeight = Val (Fin 0), meetsThreshold = False\<rparr>"

definition demo_day3 :: DailyTideData where
  "demo_day3 =
     \<lparr>date = \<lparr>day_no = 20091, ms_of_day = 0\<rparr>,
      events =
        [\<lparr>time = Some \<lparr>day_no = 20091, ms_of_day = 14400000\<rparr>, height = Val (Fin (- 3 / 10)),
          isPeak = True, e_type = Some L\<rparr>],
      maxHeight = Val (Fin 0), minHeight = Val (Fin (- 3 / 10)), meetsThreshold = False\<rparr>"

definition demo_fetch_fails :: fetcher where
  "demo_fetch_fails stationId beginDate endDate = Inl ''Failed to fetch''"

definition demo_app_loaded :: app where
  "demo_app_loaded = demo_app\<lparr>dailyData := [demo_day2, demo_day3]\<rparr>"






text \<open>
  The alert of the month above: on 2025-01-01 at 08:20, with one lead day, for the high
  tide of 6.4 ft of 2025-01-02.
\<close>

definition demo_message :: message where
  "demo_message =
     \<lparr>msg_station = \<lparr>sid = ''9414290'', name = ''San Francisco, CA''\<rparr>,
      msg_day = \<lparr>day_no = 20090, ms_of_day = 0\<rparr>,
      msg_event = \<lparr>time = Some \<lparr>day_no = 20090, ms_of_day = 37800000\<rparr>,
                    height = Val (Fin (64 / 10)), isPeak = True, e_type = Some H\<rparr>\<rparr>"

definition demo_data :: "DailyTideData list" where
  "demo_data = processMonth demo_lib (Val (Fin 6)) (currentDate demo_app) demo_hilo"

definition demo_ambient_nc :: ambient where
  "demo_ambient_nc = demo_ambient\<lparr>serviceWorker := NoController\<rparr>"

definition demo_settings_json :: string where
  "demo_settings_json =
     ''{'' @ [CHR 0x22] @ ''enabled'' @ [CHR 0x22] @ '':true,'' @ [CHR 0x22] @ ''leadDays'' @
     [CHR 0x22] @ '':1}''"

definition demo_after_first :: browser where
  "demo_after_first = checkUpcomingTidesForAlerts demo_lib demo_ambient demo_app demo_data demo_browser"

definition demo_events :: "event list" where
  "demo_events =
     [AlertRun demo_ambient demo_app demo_data, Persist ''[]'' demo_settings_json,
      AlertRun demo_ambient demo_app demo_data]"

definition demo_station2 :: SavedStation where
  "demo_station2 = \<lparr>sid = ''9410170'', name = ''San Diego, CA''\<rparr>"

definition demo_actions :: "action list" where
  "demo_actions = [ToggleFavorite, SetStation demo_station2, ToggleFavorite]"








section \<open>Auxiliary facts\<close>

lemmas demo_defs = demo_parse_def demo_parseFloat_def demo_format_def demo_lib_def demo_hilo_def
  demo_fetch_def demo_app_def demo_ambient_def demo_browser_def

lemmas model_defs = processMonth_def processDay_def dayEvents_def toEvent_def highHeights_def
  eachDayOfInterval_def Math_max_def Math_min_def zero_def loadTideData_def
  checkUpcomingTidesForAlerts_def upcomingCrossings_def alertDay_def alertKey_def hasItem_def
  isAfter_def differenceInDays_def compareLocalAsc_def

lemma startOfDay_eq [simp]: "startOfDay a = startOfDay b \<longleftrightarrow> day_no a = day_no b"
  by (cases a; cases b) (simp add: startOfDay_def)

lemma set_vals: "set (vals ns) = {x. Val x \<in> set ns}"
  by (induction ns rule: vals.induct) auto

lemma less_ext_simps [simp]:
  "NegInf < Fin a" "NegInf < PosInf" "Fin a < PosInf" "Fin a < Fin b \<longleftrightarrow> a < b"
  "\<not> x < NegInf" "\<not> PosInf < x"
  by (cases x; auto simp: less_ext_def)+

lemma NegInf_least [simp]: "NegInf \<le> x"
  by simp

lemma PosInf_greatest [simp]: "x \<le> PosInf"
  by (cases x) simp_all

lemma max_scan_eq:
  "max_scan h ns = (if NaN \<in> set ns then NaN else Val (Max (insert h (set (vals ns)))))"
proof (induction h ns rule: max_scan.induct)
  case (1 highest)
  then show ?case by simp
next
  case (2 highest ns)
  then show ?case by simp
next
  case (3 highest x ns)
  have "Max (insert (if highest < x then x else highest) (set (vals ns)))
        = Max (insert highest (insert x (set (vals ns))))"
    by (cases "set (vals ns) = {}") (auto simp: max_def)
  with 3 show ?case by auto
qed

lemma min_scan_eq:
  "min_scan l ns = (if NaN \<in> set ns then NaN else Val (Min (insert l (set (vals ns)))))"
proof (induction l ns rule: min_scan.induct)
  case (1 lowest)
  then show ?case by simp
next
  case (2 lowest ns)
  then show ?case by simp
next
  case (3 lowest x ns)
  have "Min (insert (if x < lowest then x else lowest) (set (vals ns)))
        = Min (insert lowest (insert x (set (vals ns))))"
    by (cases "set (vals ns) = {}") (auto simp: min_def)
  with 3 show ?case by auto
qed

lemma vals_nonempty: "ns \<noteq> [] \<Longrightarrow> NaN \<notin> set ns \<Longrightarrow> set (vals ns) \<noteq> {}"
  by (cases ns) (auto simp: set_vals split: number.splits, metis number.exhaust)

lemma Math_max_maximum: "ns \<noteq> [] \<Longrightarrow> Math_max ns = maximum ns"
  using vals_nonempty [of ns]
  by (auto simp: Math_max_def maximum_def max_scan_eq intro!: max_absorb2 Max_ge_iff[THEN iffD2])

lemma Math_min_minimum: "ns \<noteq> [] \<Longrightarrow> Math_min ns = minimum ns"
  using vals_nonempty [of ns]
  by (auto simp: Math_min_def minimum_def min_scan_eq intro!: min_absorb2)

lemma loadTideData_Inr:
  "fetchOutcome lb fetch a = Inr hilo \<Longrightarrow>
   loadTideData lb fetch amb (a, b) =
     (a\<lparr>loading := False, error := None,
        dailyData := processMonth lb (threshold a) (currentDate a) hilo\<rparr>,
      checkUpcomingTidesForAlerts lb amb a (processMonth lb (threshold a) (currentDate a) hilo) b)"
  by (simp add: loadTideData_def fetchOutcome_def Let_def)

lemma loadTideData_Inl:
  "fetchOutcome lb fetch a = Inl err \<Longrightarrow>
   loadTideData lb fetch amb (a, b) = (a\<lparr>loading := False, error := Some loadError\<rparr>, b)"
  by (simp add: loadTideData_def fetchOutcome_def Let_def)

lemma in_processMonth:
  "d \<in> set (processMonth lb thr cur hilo) \<Longrightarrow> \<exists>day. d = processDay lb thr hilo day"
  by (auto simp: processMonth_def)

lemma highHeights_comprehension: "highHeights es = [height e. e \<leftarrow> es, e_type e = Some H]"
  by (induction es) (simp_all add: highHeights_def)

lemma processDay_fields:
  "date (processDay lb thr hilo day) = day"
  "events (processDay lb thr hilo day) = dayEvents lb hilo day"
  "maxHeight (processDay lb thr hilo day) =
     (if highHeights (dayEvents lb hilo day) = [] then zero
      else maximum (highHeights (dayEvents lb hilo day)))"
  "minHeight (processDay lb thr hilo day) =
     (if dayEvents lb hilo day = [] then zero else minimum (map height (dayEvents lb hilo day)))"
  "meetsThreshold (processDay lb thr hilo day) = js_ge (maxHeight (processDay lb thr hilo day)) thr"
  by (simp_all add: processDay_def Let_def Math_max_maximum Math_min_minimum)

lemma processDay_maxHighTide:
  "maxHeight (processDay lb thr hilo day) = maxHighTide (events (processDay lb thr hilo day))"
  by (simp add: processDay_fields maxHighTide_def Let_def highHeights_comprehension [symmetric])

lemma demo_fetchOutcome: "fetchOutcome demo_lib demo_fetch demo_app = Inr demo_hilo"
  by (simp add: fetchOutcome_def demo_fetch_def)

lemma demo_processDay2:
  "processDay demo_lib (Val (Fin 6)) demo_hilo \<lparr>day_no = 20090, ms_of_day = 0\<rparr> = demo_day2"
  by (simp add: demo_defs model_defs demo_day2_def Let_def)

lemma demo_days: "\<lparr>day_no = 20090, ms_of_day = 0\<rparr> \<in> set (eachDayOfInterval (startOfMonth demo_lib (currentDate demo_app)) (endOfMonth demo_lib (currentDate demo_app)))"
  by (simp add: eachDayOfInterval_def demo_lib_def)

lemma processMonth_member:
  "day \<in> set (eachDayOfInterval (startOfMonth lb cur) (endOfMonth lb cur)) \<Longrightarrow>
   processDay lb thr hilo day \<in> set (processMonth lb thr cur hilo)"
  by (simp add: processMonth_def)

lemma demo_dailyData:
  "dailyData (fst (loadTideData demo_lib demo_fetch amb (demo_app, b))) =
   processMonth demo_lib (Val (Fin 6)) (currentDate demo_app) demo_hilo"
  by (simp add: loadTideData_Inr [OF demo_fetchOutcome]) (simp add: demo_app_def)

lemma demo_day2_in:
  "demo_day2 \<in> set (dailyData (fst (loadTideData demo_lib demo_fetch demo_ambient (demo_app, demo_browser))))"
  unfolding demo_dailyData
  using processMonth_member [OF demo_days, of "Val (Fin 6)" demo_hilo]
  by (simp add: demo_processDay2)

lemma demo_processDay3:
  "processDay demo_lib (Val (Fin 6)) demo_hilo \<lparr>day_no = 20091, ms_of_day = 0\<rparr> = demo_day3"
  by (simp add: demo_defs model_defs demo_day3_def Let_def)

lemma demo_days3: "\<lparr>day_no = 20091, ms_of_day = 0\<rparr> \<in> set (eachDayOfInterval (startOfMonth demo_lib (currentDate demo_app)) (endOfMonth demo_lib (currentDate demo_app)))"
  by (simp add: eachDayOfInterval_def demo_lib_def)

lemma demo_day3_in:
  "demo_day3 \<in> set (dailyData (fst (loadTideData demo_lib demo_fetch demo_ambient (demo_app, demo_browser))))"
  unfolding demo_dailyData
  using processMonth_member [OF demo_days3, of "Val (Fin 6)" demo_hilo]
  by (simp add: demo_processDay3)

lemma js_ge_zero_le: "js_ge zero thr \<longleftrightarrow> js_le thr zero"
  by (cases thr) (simp_all add: zero_def)

lemma js_gt_not_le: "js_gt thr zero \<Longrightarrow> \<not> js_le thr zero"
  by (cases thr) (auto simp add: zero_def)

lemma demo_processDay4:
  "processDay demo_lib (Val (Fin 6)) demo_hilo \<lparr>day_no = 20092, ms_of_day = 0\<rparr> = demo_day4"
  by (simp add: demo_defs model_defs demo_day4_def Let_def)

lemma demo_days4: "\<lparr>day_no = 20092, ms_of_day = 0\<rparr> \<in> set (eachDayOfInterval (startOfMonth demo_lib (currentDate demo_app)) (endOfMonth demo_lib (currentDate demo_app)))"
  by (simp add: eachDayOfInterval_def demo_lib_def)

lemma demo_day4_in:
  "demo_day4 \<in> set (dailyData (fst (loadTideData demo_lib demo_fetch demo_ambient (demo_app, demo_browser))))"
  unfolding demo_dailyData
  using processMonth_member [OF demo_days4, of "Val (Fin 6)" demo_hilo]
  by (simp add: demo_processDay4)

lemma isSameDay_fallsOn: "isSameDay (parse lb (p_t p)) (Some day) = fallsOn lb p day"
  by (cases "parse lb (p_t p)") (simp_all add: fallsOn_def)

lemma processMonth_days:
  "map (\<lambda>d. day_no (date d)) (processMonth lb thr cur hilo) =
   [day_no (startOfMonth lb cur)..day_no (endOfMonth lb cur)]"
  by (simp add: processMonth_def eachDayOfInterval_def processDay_fields(1) comp_def)

lemma processMonth_entry:
  "d \<in> set (processMonth lb thr cur hilo) \<Longrightarrow>
   ms_of_day (date d) = 0 \<and> events d = map (toEvent lb) [p \<leftarrow> hilo. fallsOn lb p (date d)]"
  by (auto simp: processMonth_def eachDayOfInterval_def processDay_fields dayEvents_def
      isSameDay_fallsOn)

lemma sorted_wrt_upto: "sorted_wrt (<) [i..j]"
  using sorted_upto distinct_upto strict_sorted_iff by blast




lemma adds_refl: "adds lb b [] b"
  by (simp add: adds_def)

lemma hasItem_upd: "hasItem (st(k \<mapsto> ''sent'')) k' \<longleftrightarrow> k' = k \<or> hasItem st k'"
  by (simp add: hasItem_def)

lemma adds_step:
  assumes "\<not> hasItem (storage b) (msgKey lb m)"
    and "adds lb (b\<lparr>posted := posted b @ [m], storage := (storage b)(msgKey lb m \<mapsto> ''sent'')\<rparr>) ms b'"
  shows "adds lb b (m # ms) b'"
proof -
  let ?b1 = "b\<lparr>posted := posted b @ [m], storage := (storage b)(msgKey lb m \<mapsto> ''sent'')\<rparr>"
  from assms(2) have p: "posted b' = posted b @ m # ms" and d: "distinct (map (msgKey lb) ms)"
    and st: "\<And>k. k \<in> msgKey lb ` set ms \<Longrightarrow> \<not> hasItem (storage ?b1) k \<and> storage b' k = Some ''sent''"
    and st': "\<And>k. k \<notin> msgKey lb ` set ms \<Longrightarrow> storage b' k = storage ?b1 k"
    by (simp_all add: adds_def split: if_splits)
  have notin: "msgKey lb m \<notin> msgKey lb ` set ms"
    using st [of "msgKey lb m"] by (auto simp: hasItem_upd)
  have "\<not> hasItem (storage b) k \<and> storage b' k = Some ''sent''"
    if "k \<in> msgKey lb ` set (m # ms)" for k
  proof (cases "k = msgKey lb m")
    case True
    with assms(1) notin st' [of k] show ?thesis by simp
  next
    case False
    with that have "k \<in> msgKey lb ` set ms" by auto
    with st [of k] show ?thesis by (simp add: hasItem_upd)
  qed
  moreover have "storage b' k = storage b k" if "k \<notin> msgKey lb ` set (m # ms)" for k
    using that st' [of k] by auto
  ultimately show ?thesis
    using p d notin unfolding adds_def by (simp (no_asm_simp))
qed

lemma alertDay_Inl: "alertDay lb amb a day b = Inl b' \<Longrightarrow> b' = b"
  by (auto simp: alertDay_def Let_def split: option.splits service_worker.splits if_splits)

lemma alertDay_Inr:
  assumes "alertDay lb amb a day b = Inr b'"
  shows "b' = b \<or>
    (\<exists>ev. serviceWorker amb = Controller \<and>
       differenceInDays (date day) (today amb) \<le> leadDays (notifSettings a) \<and>
       find (\<lambda>e. e_type e = Some H \<and> js_ge (height e) (threshold a)) (events day) = Some ev \<and>
       \<not> hasItem (storage b) (msgKey lb (dayMessage a day ev)) \<and>
       b' = b\<lparr>posted := posted b @ [dayMessage a day ev],
              storage := (storage b)(msgKey lb (dayMessage a day ev) \<mapsto> ''sent'')\<rparr>)"
  using assms
  by (auto simp: alertDay_def Let_def msgKey_def dayMessage_def
      split: option.splits service_worker.splits if_splits)

lemma alertLoop_adds:
  "\<exists>ms. adds lb b ms (alertLoop lb amb a ds b) \<and>
     (ms \<noteq> [] \<longrightarrow> serviceWorker amb = Controller) \<and>
     (\<forall>m \<in> set ms. \<exists>d \<in> set ds. \<exists>ev.
        m = dayMessage a d ev \<and>
        differenceInDays (date d) (today amb) \<le> leadDays (notifSettings a) \<and>
        find (\<lambda>e. e_type e = Some H \<and> js_ge (height e) (threshold a)) (events d) = Some ev)"
proof (induction ds arbitrary: b)
  case Nil
  show ?case using adds_refl [of lb b] by auto
next
  case (Cons day rest)
  show ?case
  proof (cases "alertDay lb amb a day b")
    case (Inl b')
    then have "alertLoop lb amb a (day # rest) b = b"
      using alertDay_Inl by fastforce
    then show ?thesis using adds_refl [of lb b] by auto
  next
    case (Inr b')
    from Cons.IH [of b'] obtain ms where ms: "adds lb b' ms (alertLoop lb amb a rest b')"
      "ms \<noteq> [] \<longrightarrow> serviceWorker amb = Controller"
      "\<forall>m \<in> set ms. \<exists>d \<in> set rest. \<exists>ev.
        m = dayMessage a d ev \<and>
        differenceInDays (date d) (today amb) \<le> leadDays (notifSettings a) \<and>
        find (\<lambda>e. e_type e = Some H \<and> js_ge (height e) (threshold a)) (events d) = Some ev"
      by blast
    from Inr have loop: "alertLoop lb amb a (day # rest) b = alertLoop lb amb a rest b'"
      by simp
    from alertDay_Inr [OF Inr] show ?thesis
    proof
      assume "b' = b"
      with ms loop show ?thesis
        by (intro exI [of _ ms]) auto
    next
      assume "\<exists>ev. serviceWorker amb = Controller \<and>
       differenceInDays (date day) (today amb) \<le> leadDays (notifSettings a) \<and>
       find (\<lambda>e. e_type e = Some H \<and> js_ge (height e) (threshold a)) (events day) = Some ev \<and>
       \<not> hasItem (storage b) (msgKey lb (dayMessage a day ev)) \<and>
       b' = b\<lparr>posted := posted b @ [dayMessage a day ev],
              storage := (storage b)(msgKey lb (dayMessage a day ev) \<mapsto> ''sent'')\<rparr>"
      then obtain ev where ev: "serviceWorker amb = Controller"
        "differenceInDays (date day) (today amb) \<le> leadDays (notifSettings a)"
        "find (\<lambda>e. e_type e = Some H \<and> js_ge (height e) (threshold a)) (events day) = Some ev"
        "\<not> hasItem (storage b) (msgKey lb (dayMessage a day ev))"
        "b' = b\<lparr>posted := posted b @ [dayMessage a day ev],
              storage := (storage b)(msgKey lb (dayMessage a day ev) \<mapsto> ''sent'')\<rparr>"
        by blast
      from adds_step [OF ev(4)] ms(1) ev(5)
      have "adds lb b (dayMessage a day ev # ms) (alertLoop lb amb a (day # rest) b)"
        unfolding loop by simp
      with ms(3) ev(1,2,3) show ?thesis
        by (intro exI [of _ "dayMessage a day ev # ms"]) auto
    qed
  qed
qed

lemma checkUpcoming_adds:
  "\<exists>ms. adds lb b ms (checkUpcomingTidesForAlerts lb amb a data b) \<and>
     (ms \<noteq> [] \<longrightarrow> serviceWorker amb = Controller \<and> enabled (notifSettings a) \<and>
        notif_permission amb = Granted) \<and>
     (\<forall>m \<in> set ms. \<exists>d \<in> set data. \<exists>ev.
        m = dayMessage a d ev \<and> eligible amb a d \<and>
        find (\<lambda>e. e_type e = Some H \<and> js_ge (height e) (threshold a)) (events d) = Some ev)"
proof (cases "\<not> enabled (notifSettings a) \<or> notif_permission amb \<noteq> Granted")
  case True
  then have "checkUpcomingTidesForAlerts lb amb a data b = b"
    by (simp add: checkUpcomingTidesForAlerts_def)
  then show ?thesis using adds_refl [of lb b] by auto
next
  case False
  then have eq: "checkUpcomingTidesForAlerts lb amb a data b =
      alertLoop lb amb a (upcomingCrossings amb a data) b"
    by (simp add: checkUpcomingTidesForAlerts_def)
  from alertLoop_adds [of lb b amb a "upcomingCrossings amb a data"]
  obtain ms where ms: "adds lb b ms (alertLoop lb amb a (upcomingCrossings amb a data) b)"
     "ms \<noteq> [] \<longrightarrow> serviceWorker amb = Controller"
     "\<forall>m \<in> set ms. \<exists>d \<in> set (upcomingCrossings amb a data). \<exists>ev.
        m = dayMessage a d ev \<and>
        differenceInDays (date d) (today amb) \<le> leadDays (notifSettings a) \<and>
        find (\<lambda>e. e_type e = Some H \<and> js_ge (height e) (threshold a)) (events d) = Some ev"
    by blast
  from ms(3) have "\<forall>m \<in> set ms. \<exists>d \<in> set data. \<exists>ev.
        m = dayMessage a d ev \<and> eligible amb a d \<and>
        find (\<lambda>e. e_type e = Some H \<and> js_ge (height e) (threshold a)) (events d) = Some ev"
    by (fastforce simp: upcomingCrossings_def eligible_def)
  with ms(1,2) False show ?thesis
    unfolding eq by (intro exI [of _ ms]) auto
qed

lemma adds_newlyPosted: "adds lb b ms b' \<Longrightarrow> newlyPosted b b' = ms"
  by (simp add: adds_def newlyPosted_def)

lemma demo_newlyPosted:
  "newlyPosted demo_browser (checkUpcomingTidesForAlerts demo_lib demo_ambient demo_app demo_data demo_browser)
     = [demo_message]"
  by code_simp

lemma demo_day2_eligible:
  "demo_day2 \<in> set demo_data \<and> msg_day demo_message = date demo_day2 \<and> meetsThreshold demo_day2 \<and>
   isAfter (date demo_day2) (today demo_ambient) \<and>
   differenceInDays (date demo_day2) (today demo_ambient) = 0 \<and>
   leadDays (notifSettings demo_app) = 1"
  by code_simp

lemma adds_changed:
  assumes "adds lb b ms b'"
  shows "storage b' k \<noteq> storage b k \<longleftrightarrow> k \<in> msgKey lb ` set ms"
proof (cases "k \<in> msgKey lb ` set ms")
  case True
  with assms have "\<not> hasItem (storage b) k" "storage b' k = Some ''sent''"
    by (simp_all add: adds_def split: if_splits)
  with True show ?thesis
    by (auto simp: hasItem_def split: option.splits)
next
  case False
  with assms show ?thesis
    by (simp add: adds_def split: if_splits)
qed

lemma adds_Nil: "adds lb b [] b' \<Longrightarrow> b' = b"
  by (cases b; cases b') (auto simp: adds_def)

lemma demo_message_key: "msgKey demo_lib demo_message = ''alert_9414290_20250102''"
  by code_simp

lemma grows_refl: "grows lb b [] b"
  by (simp add: grows_def)

lemma adds_grows:
  assumes "adds lb b ms b'"
  shows "grows lb b ms b'"
proof -
  have "hasItem (storage b') k" if "hasItem (storage b) k" for k
  proof (cases "k \<in> msgKey lb ` set ms")
    case True
    with assms have "storage b' k = Some ''sent''"
      by (simp add: adds_def split: if_splits)
    then show ?thesis by (simp add: hasItem_def)
  next
    case False
    with assms have "storage b' k = storage b k"
      by (simp add: adds_def split: if_splits)
    with that show ?thesis by (simp add: hasItem_def)
  qed
  moreover have "\<not> hasItem (storage b) (msgKey lb m) \<and> hasItem (storage b') (msgKey lb m)"
    if "m \<in> set ms" for m
  proof -
    from that have "msgKey lb m \<in> msgKey lb ` set ms" by simp
    with assms have "\<not> hasItem (storage b) (msgKey lb m)" "storage b' (msgKey lb m) = Some ''sent''"
      by (simp_all add: adds_def split: if_splits)
    then show ?thesis by (simp add: hasItem_def)
  qed
  moreover from assms have "posted b' = posted b @ ms" "distinct (map (msgKey lb) ms)"
    by (simp_all add: adds_def)
  ultimately show ?thesis
    unfolding grows_def by blast
qed

lemma persist_grows: "grows lb b [] (persistSettings f n b)"
  by (simp add: grows_def persistSettings_def hasItem_def alertKey_def)

lemma step_grows: "\<exists>ms. grows lb b ms (step lb b ev)"
proof (cases ev)
  case (AlertRun amb a data)
  with checkUpcoming_adds [of lb b amb a data] show ?thesis
    using adds_grows by fastforce
next
  case (Persist f n)
  then show ?thesis using persist_grows [of lb b f n] by auto
qed

lemma grows_trans:
  assumes "grows lb b ms1 b1" and "grows lb b1 ms2 b2"
  shows "grows lb b (ms1 @ ms2) b2"
proof -
  from assms have p: "posted b2 = posted b @ ms1 @ ms2"
    by (simp add: grows_def)
  from assms have d1: "distinct (map (msgKey lb) ms1)" and d2: "distinct (map (msgKey lb) ms2)"
    by (simp_all add: grows_def)
  from assms(1) have k1: "\<And>m. m \<in> set ms1 \<Longrightarrow>
      \<not> hasItem (storage b) (msgKey lb m) \<and> hasItem (storage b1) (msgKey lb m)"
    and mono1: "\<And>st d. hasItem (storage b) (alertKey lb st d) \<Longrightarrow> hasItem (storage b1) (alertKey lb st d)"
    by (simp_all add: grows_def)
  from assms(2) have k2: "\<And>m. m \<in> set ms2 \<Longrightarrow>
      \<not> hasItem (storage b1) (msgKey lb m) \<and> hasItem (storage b2) (msgKey lb m)"
    and mono2: "\<And>st d. hasItem (storage b1) (alertKey lb st d) \<Longrightarrow> hasItem (storage b2) (alertKey lb st d)"
    by (simp_all add: grows_def)
  have disj: "msgKey lb ` set ms1 \<inter> msgKey lb ` set ms2 = {}"
    using k1 k2 by fastforce
  have a: "\<not> hasItem (storage b) (msgKey lb m) \<and> hasItem (storage b2) (msgKey lb m)"
    if "m \<in> set (ms1 @ ms2)" for m
  proof (cases "m \<in> set ms1")
    case True
    with k1 [of m] mono2 [of "msg_station m" "msg_day m"] show ?thesis
      by (simp add: msgKey_def)
  next
    case False
    with that have "m \<in> set ms2" by simp
    with k2 [of m] mono1 [of "msg_station m" "msg_day m"] show ?thesis
      by (auto simp: msgKey_def)
  qed
  have "distinct (map (msgKey lb) (ms1 @ ms2))"
    using d1 d2 disj by simp
  with p a mono1 mono2 show ?thesis
    unfolding grows_def by blast
qed

lemma history_grows: "\<exists>ms. grows lb b ms (history lb b evs)"
proof (induction evs arbitrary: b)
  case Nil
  show ?case using grows_refl [of lb b] by (auto simp: history_def)
next
  case (Cons ev evs)
  from step_grows [of lb b ev] obtain ms1 where 1: "grows lb b ms1 (step lb b ev)"
    by blast
  from Cons.IH [of "step lb b ev"] obtain ms2 where
    2: "grows lb (step lb b ev) ms2 (history lb (step lb b ev) evs)"
    by blast
  have "history lb b (ev # evs) = history lb (step lb b ev) evs"
    by (simp add: history_def)
  with grows_trans [OF 1 2] show ?case
    by auto
qed

lemma distinct_filter_le1:
  "distinct (map f xs) \<Longrightarrow> length [x \<leftarrow> xs. f x = k] \<le> 1"
proof (induction xs)
  case Nil
  then show ?case by simp
next
  case (Cons x xs)
  show ?case
  proof (cases "f x = k")
    case True
    with Cons.prems have "[y \<leftarrow> xs. f y = k] = []"
      by (auto simp: filter_empty_conv image_iff)
    with True show ?thesis by simp
  next
    case False
    with Cons show ?thesis by simp
  qed
qed

lemma demo_history_posted: "posted (history demo_lib demo_browser demo_events) = [demo_message]"
  by code_simp

lemma demo_after_first_marker:
  "hasItem (storage demo_after_first) (alertKey demo_lib (station demo_app) (date demo_day2))"
  by code_simp

lemma uniqueIds_filter: "uniqueIds favs \<Longrightarrow> uniqueIds (filter P favs)"
  by (simp add: uniqueIds_def distinct_map_filter)

lemma toggleFavorite_present:
  "list_ex (\<lambda>f. sid f = sid (station a)) (favorites a) \<Longrightarrow>
   favorites (toggleFavorite a) = [f \<leftarrow> favorites a. sid f \<noteq> sid (station a)]"
  by (simp add: toggleFavorite_def Let_def)

lemma toggleFavorite_absent:
  "\<not> list_ex (\<lambda>f. sid f = sid (station a)) (favorites a) \<Longrightarrow>
   favorites (toggleFavorite a) = favorites a @ [station a]"
  by (simp add: toggleFavorite_def Let_def)

lemma uniqueIds_toggle: "uniqueIds (favorites a) \<Longrightarrow> uniqueIds (favorites (toggleFavorite a))"
proof (cases "list_ex (\<lambda>f. sid f = sid (station a)) (favorites a)")
  case True
  assume "uniqueIds (favorites a)"
  with True show ?thesis
    by (simp add: toggleFavorite_present uniqueIds_filter)
next
  case False
  assume "uniqueIds (favorites a)"
  with False show ?thesis
    by (auto simp: toggleFavorite_absent uniqueIds_def list_ex_iff)
qed

lemma uniqueIds_act: "uniqueIds (favorites a) \<Longrightarrow> uniqueIds (favorites (act a x))"
  by (cases x) (simp_all add: uniqueIds_toggle removeFavorite_def setStation_def uniqueIds_filter)

lemma uniqueIds_foldl: "uniqueIds (favorites a) \<Longrightarrow> uniqueIds (favorites (foldl act a xs))"
  by (induction xs arbitrary: a) (simp_all add: uniqueIds_act)

lemma demo_actions_favorites:
  "favorites (foldl act demo_app demo_actions) = [station demo_app, demo_station2] \<and>
   station (foldl act demo_app demo_actions) = demo_station2"
  by (simp add: demo_actions_def demo_app_def demo_station2_def toggleFavorite_def setStation_def)








section \<open>Threshold membership\<close>

text \<open>
  C1. For every day produced by a successful fetch, the flag \<open>meetsThreshold\<close> is true
  if and only if the maximum height among the day's high-tide events, taken as 0 when
  the day has none, is greater than or equal to the threshold the fetch ran with. The
  comparison is JavaScript's, so the flag is false when the threshold or one of the
  heights is NaN.
\<close>

theorem meetsThreshold_iff_max_high:
  assumes "fetchOutcome lb fetch a = Inr hilo"
    and "d \<in> set (dailyData (fst (loadTideData lb fetch amb (a, b))))"
  shows "meetsThreshold d \<longleftrightarrow> js_ge (maxHighTide (events d)) (threshold a)"
proof -
  from assms have "d \<in> set (processMonth lb (threshold a) (currentDate a) hilo)"
    by (simp add: loadTideData_Inr)
  then obtain day where "d = processDay lb (threshold a) hilo day"
    using in_processMonth by blast
  then show ?thesis
    by (simp add: processDay_fields(5) processDay_maxHighTide)
qed

theorem meetsThreshold_iff_max_high_witness:
  "fetchOutcome demo_lib demo_fetch demo_app = Inr demo_hilo \<and>
   demo_day2 \<in> set (dailyData (fst (loadTideData demo_lib demo_fetch demo_ambient (demo_app, demo_browser)))) \<and>
   meetsThreshold demo_day2 \<and>
   js_ge (maxHighTide (events demo_day2)) (threshold demo_app)"
  using meetsThreshold_iff_max_high [OF demo_fetchOutcome demo_day2_in] demo_fetchOutcome demo_day2_in
  by (simp add: demo_day2_def)

section \<open>Maximum and minimum height of a day\<close>

text \<open>
  C5, as stated, fails. On 2025-01-03 the month above has a single event, a low tide of
  -0.3 ft: the maximum of the heights of the day's events is -0.3, and \<open>maxHeight\<close>
  is 0, because the source keeps the heights of the high-tide events only.
\<close>

theorem maxHeight_all_events_counterexample:
  "demo_day3 \<in> set (dailyData (fst (loadTideData demo_lib demo_fetch demo_ambient (demo_app, demo_browser)))) \<and>
   maxHeight demo_day3 = Val (Fin 0) \<and>
   maximum (allHeights (events demo_day3)) = Val (Fin (- 3 / 10)) \<and>
   maxHeight demo_day3 \<noteq> maximum (allHeights (events demo_day3))"
  using demo_day3_in by (simp add: demo_day3_def allHeights_def maximum_def)

text \<open>
  C5, amended. For every day built by a successful fetch, \<open>maxHeight\<close> is the maximum
  of the heights of that day's high-tide events, and 0 when the day has none;
  \<open>minHeight\<close> is the minimum of the heights of all the day's events, and 0 when the
  day has no event.
\<close>

theorem maxHeight_minHeight:
  assumes "fetchOutcome lb fetch a = Inr hilo"
    and "d \<in> set (dailyData (fst (loadTideData lb fetch amb (a, b))))"
  shows "maxHeight d = maxHighTide (events d) \<and>
         minHeight d = (if events d = [] then zero else minimum (allHeights (events d)))"
proof -
  from assms have "d \<in> set (processMonth lb (threshold a) (currentDate a) hilo)"
    by (simp add: loadTideData_Inr)
  then obtain day where "d = processDay lb (threshold a) hilo day"
    using in_processMonth by blast
  then show ?thesis
    by (simp add: processDay_maxHighTide processDay_fields(2,4) allHeights_def)
qed

theorem maxHeight_minHeight_witness:
  "fetchOutcome demo_lib demo_fetch demo_app = Inr demo_hilo \<and>
   demo_day3 \<in> set (dailyData (fst (loadTideData demo_lib demo_fetch demo_ambient (demo_app, demo_browser)))) \<and>
   maxHeight demo_day3 = maxHighTide (events demo_day3) \<and>
   maxHighTide (events demo_day3) = zero \<and>
   minHeight demo_day3 = minimum (allHeights (events demo_day3))"
  using maxHeight_minHeight [OF demo_fetchOutcome demo_day3_in] demo_fetchOutcome demo_day3_in
  by (simp add: demo_day3_def maxHighTide_def zero_def)

section \<open>Days without a high tide\<close>

text \<open>
  C9. A day with no high-tide event has \<open>maxHeight\<close> 0; it meets the threshold exactly
  when the threshold is at most 0, so never for a strictly positive threshold; and a
  day with no event at all has \<open>minHeight\<close> 0 as well.
\<close>

theorem no_high_tide_day:
  assumes "fetchOutcome lb fetch a = Inr hilo"
    and "d \<in> set (dailyData (fst (loadTideData lb fetch amb (a, b))))"
    and "[e \<leftarrow> events d. e_type e = Some H] = []"
  shows "maxHeight d = zero \<and>
         (meetsThreshold d \<longleftrightarrow> js_le (threshold a) zero) \<and>
         (js_gt (threshold a) zero \<longrightarrow> \<not> meetsThreshold d) \<and>
         (events d = [] \<longrightarrow> minHeight d = zero)"
proof -
  from assms have "d \<in> set (processMonth lb (threshold a) (currentDate a) hilo)"
    by (simp add: loadTideData_Inr)
  then obtain day where d: "d = processDay lb (threshold a) hilo day"
    using in_processMonth by blast
  from assms(3) have "highHeights (events d) = []"
    by (simp add: highHeights_def)
  with d have mx: "maxHeight d = zero"
    by (simp add: processDay_fields)
  from d have "meetsThreshold d = js_ge (maxHeight d) (threshold a)"
    by (simp add: processDay_fields(5))
  with mx have mt: "meetsThreshold d \<longleftrightarrow> js_le (threshold a) zero"
    by (simp add: js_ge_zero_le)
  from d have "events d = [] \<longrightarrow> minHeight d = zero"
    by (simp add: processDay_fields)
  with mx mt show ?thesis
    using js_gt_not_le by blast
qed

theorem no_high_tide_day_witness:
  "fetchOutcome demo_lib demo_fetch demo_app = Inr demo_hilo \<and>
   demo_day4 \<in> set (dailyData (fst (loadTideData demo_lib demo_fetch demo_ambient (demo_app, demo_browser)))) \<and>
   [e \<leftarrow> events demo_day4. e_type e = Some H] = [] \<and>
   events demo_day4 = [] \<and>
   js_gt (threshold demo_app) zero \<and>
   maxHeight demo_day4 = zero \<and> minHeight demo_day4 = zero \<and> \<not> meetsThreshold demo_day4"
proof -
  have h: "[e \<leftarrow> events demo_day4. e_type e = Some H] = []"
    by (simp add: demo_day4_def)
  have "events demo_day4 = []" "js_gt (threshold demo_app) zero"
    by (simp_all add: demo_day4_def demo_app_def zero_def)
  with no_high_tide_day [OF demo_fetchOutcome demo_day4_in h] demo_fetchOutcome demo_day4_in h
  show ?thesis by (simp add: demo_app_def zero_def)
qed

section \<open>A failing fetch\<close>

text \<open>
  C6. When the predictions fetch throws, \<open>loadTideData\<close> sets the one error message,
  leaves \<open>dailyData\<close> as it was, clears the loading flag, and changes nothing else of
  the state or of the browser.
\<close>

theorem loadTideData_fetch_throws:
  assumes "fetchOutcome lb fetch a = Inl err"
  shows "loadTideData lb fetch amb (a, b) = (a\<lparr>error := Some loadError, loading := False\<rparr>, b) \<and>
         error (fst (loadTideData lb fetch amb (a, b))) = Some loadError \<and>
         dailyData (fst (loadTideData lb fetch amb (a, b))) = dailyData a \<and>
         loading (fst (loadTideData lb fetch amb (a, b))) = False"
  using assms by (simp add: loadTideData_Inl)

theorem loadTideData_fetch_throws_witness:
  "fetchOutcome demo_lib demo_fetch_fails demo_app_loaded = Inl ''Failed to fetch'' \<and>
   error (fst (loadTideData demo_lib demo_fetch_fails demo_ambient (demo_app_loaded, demo_browser)))
     = Some loadError \<and>
   dailyData (fst (loadTideData demo_lib demo_fetch_fails demo_ambient (demo_app_loaded, demo_browser)))
     = [demo_day2, demo_day3] \<and>
   loading (fst (loadTideData demo_lib demo_fetch_fails demo_ambient (demo_app_loaded, demo_browser)))
     = False"
proof -
  have h: "fetchOutcome demo_lib demo_fetch_fails demo_app_loaded = Inl ''Failed to fetch''"
    by (simp add: fetchOutcome_def demo_fetch_fails_def)
  from loadTideData_fetch_throws [OF h, of demo_ambient demo_browser] h show ?thesis
    by (simp add: demo_app_loaded_def)
qed

section \<open>One entry per calendar day\<close>

text \<open>
  C2. After a successful fetch, the days of the entries of \<open>dailyData\<close>, in order, are
  the calendar days from the day of \<open>startOfMonth\<close> to the day of \<open>endOfMonth\<close> of the
  visible month, each once and ascending; each entry is dated at midnight, and its events
  are the fetched predictions whose parsed timestamp falls on its day, converted, in the
  order of the service's answer.
\<close>

theorem dailyData_one_entry_per_day:
  assumes "fetchOutcome lb fetch a = Inr hilo"
  shows "map (\<lambda>d. day_no (date d)) (dailyData (fst (loadTideData lb fetch amb (a, b)))) =
           [day_no (startOfMonth lb (currentDate a))..day_no (endOfMonth lb (currentDate a))] \<and>
         sorted_wrt (\<lambda>d d'. day_no (date d) < day_no (date d'))
           (dailyData (fst (loadTideData lb fetch amb (a, b)))) \<and>
         (\<forall>d \<in> set (dailyData (fst (loadTideData lb fetch amb (a, b)))).
            ms_of_day (date d) = 0 \<and>
            events d = map (toEvent lb) [p \<leftarrow> hilo. fallsOn lb p (date d)])"
proof -
  let ?ds = "dailyData (fst (loadTideData lb fetch amb (a, b)))"
  from assms have ds: "?ds = processMonth lb (threshold a) (currentDate a) hilo"
    by (simp add: loadTideData_Inr)
  have m: "map (\<lambda>d. day_no (date d)) ?ds =
      [day_no (startOfMonth lb (currentDate a))..day_no (endOfMonth lb (currentDate a))]"
    unfolding ds by (rule processMonth_days)
  have "sorted_wrt (<) (map (\<lambda>d. day_no (date d)) ?ds)"
    unfolding m by (rule sorted_wrt_upto)
  then have s: "sorted_wrt (\<lambda>d d'. day_no (date d) < day_no (date d')) ?ds"
    by (simp add: sorted_wrt_map)
  have "\<forall>d \<in> set ?ds. ms_of_day (date d) = 0 \<and>
      events d = map (toEvent lb) [p \<leftarrow> hilo. fallsOn lb p (date d)]"
    unfolding ds using processMonth_entry by blast
  with m s show ?thesis by blast
qed

theorem dailyData_one_entry_per_day_witness:
  "fetchOutcome demo_lib demo_fetch demo_app = Inr demo_hilo \<and>
   map (\<lambda>d. day_no (date d))
     (dailyData (fst (loadTideData demo_lib demo_fetch demo_ambient (demo_app, demo_browser))))
     = [20089..20119] \<and>
   length (dailyData (fst (loadTideData demo_lib demo_fetch demo_ambient (demo_app, demo_browser)))) = 31 \<and>
   demo_day2 \<in> set (dailyData (fst (loadTideData demo_lib demo_fetch demo_ambient (demo_app, demo_browser)))) \<and>
   ms_of_day (date demo_day2) = 0 \<and>
   events demo_day2 = map (toEvent demo_lib) [p \<leftarrow> demo_hilo. fallsOn demo_lib p (date demo_day2)] \<and>
   length (events demo_day2) = 2"
proof -
  note th = dailyData_one_entry_per_day [OF demo_fetchOutcome, of demo_ambient demo_browser]
  from th have m: "map (\<lambda>d. day_no (date d))
     (dailyData (fst (loadTideData demo_lib demo_fetch demo_ambient (demo_app, demo_browser))))
     = [20089..20119]"
    by (simp add: demo_lib_def)
  have "length (map (\<lambda>d. day_no (date d))
     (dailyData (fst (loadTideData demo_lib demo_fetch demo_ambient (demo_app, demo_browser))))) = 31"
    unfolding m by simp
  then have l: "length (dailyData (fst (loadTideData demo_lib demo_fetch demo_ambient (demo_app, demo_browser)))) = 31"
    by simp
  from th demo_day2_in have "ms_of_day (date demo_day2) = 0 \<and>
      events demo_day2 = map (toEvent demo_lib) [p \<leftarrow> demo_hilo. fallsOn demo_lib p (date demo_day2)]"
    by blast
  moreover have "length (events demo_day2) = 2"
    by (simp add: demo_day2_def)
  ultimately show ?thesis
    using m l demo_fetchOutcome demo_day2_in by blast
qed

section \<open>Alerts\<close>

text \<open>
  C3. Every message a run of \<open>checkUpcomingTidesForAlerts\<close> posts is about a day of
  its data that meets the threshold, whose date is strictly after today, and for which
  \<open>differenceInDays(day.date, today)\<close> is at most \<open>leadDays\<close>.
\<close>

theorem alerts_only_for_eligible_days:
  assumes "m \<in> set (newlyPosted b (checkUpcomingTidesForAlerts lb amb a data b))"
  shows "\<exists>d \<in> set data. msg_day m = date d \<and> meetsThreshold d \<and> isAfter (date d) (today amb) \<and>
           differenceInDays (date d) (today amb) \<le> leadDays (notifSettings a)"
proof -
  from checkUpcoming_adds [of lb b amb a data] obtain ms where
    ms: "adds lb b ms (checkUpcomingTidesForAlerts lb amb a data b)"
     "\<forall>m \<in> set ms. \<exists>d \<in> set data. \<exists>ev.
        m = dayMessage a d ev \<and> eligible amb a d \<and>
        find (\<lambda>e. e_type e = Some H \<and> js_ge (height e) (threshold a)) (events d) = Some ev"
    by blast
  from assms ms(1) have "m \<in> set ms"
    by (simp add: adds_newlyPosted)
  with ms(2) obtain d ev where "d \<in> set data" "m = dayMessage a d ev" "eligible amb a d"
    by blast
  then show ?thesis
    by (auto simp: dayMessage_def eligible_def)
qed

theorem alerts_only_for_eligible_days_witness:
  "demo_message \<in> set (newlyPosted demo_browser
      (checkUpcomingTidesForAlerts demo_lib demo_ambient demo_app demo_data demo_browser)) \<and>
   (\<exists>d \<in> set demo_data. msg_day demo_message = date d \<and> meetsThreshold d \<and>
      isAfter (date d) (today demo_ambient) \<and>
      differenceInDays (date d) (today demo_ambient) \<le> leadDays (notifSettings demo_app)) \<and>
   demo_day2 \<in> set demo_data \<and> msg_day demo_message = date demo_day2 \<and> meetsThreshold demo_day2 \<and>
   isAfter (date demo_day2) (today demo_ambient) \<and>
   differenceInDays (date demo_day2) (today demo_ambient) = 0 \<and>
   leadDays (notifSettings demo_app) = 1"
proof -
  have h: "demo_message \<in> set (newlyPosted demo_browser
      (checkUpcomingTidesForAlerts demo_lib demo_ambient demo_app demo_data demo_browser))"
    by (simp add: demo_newlyPosted)
  from alerts_only_for_eligible_days [OF h] h demo_day2_eligible show ?thesis
    by blast
qed

text \<open>
  C10. In a run of \<open>checkUpcomingTidesForAlerts\<close> the storage changes at a key exactly
  when the run posts a message of that key; such a key had no marker before the run and
  holds \<open>sent\<close> after it. When no service worker controls the page, the run posts
  nothing and leaves the storage as it was, so that the day is still eligible later.
\<close>

theorem marker_written_iff_posted:
  "(\<forall>k. storage (checkUpcomingTidesForAlerts lb amb a data b) k \<noteq> storage b k \<longleftrightarrow>
        k \<in> msgKey lb ` set (newlyPosted b (checkUpcomingTidesForAlerts lb amb a data b))) \<and>
   (\<forall>m \<in> set (newlyPosted b (checkUpcomingTidesForAlerts lb amb a data b)).
        \<not> hasItem (storage b) (msgKey lb m) \<and>
        storage (checkUpcomingTidesForAlerts lb amb a data b) (msgKey lb m) = Some ''sent'') \<and>
   (serviceWorker amb \<noteq> Controller \<longrightarrow> checkUpcomingTidesForAlerts lb amb a data b = b)"
proof -
  from checkUpcoming_adds [of lb b amb a data] obtain ms where
    ms: "adds lb b ms (checkUpcomingTidesForAlerts lb amb a data b)"
     "ms \<noteq> [] \<longrightarrow> serviceWorker amb = Controller"
    by blast
  have n: "newlyPosted b (checkUpcomingTidesForAlerts lb amb a data b) = ms"
    using ms(1) by (rule adds_newlyPosted)
  have 1: "\<forall>k. storage (checkUpcomingTidesForAlerts lb amb a data b) k \<noteq> storage b k \<longleftrightarrow>
        k \<in> msgKey lb ` set ms"
    using adds_changed [OF ms(1)] by blast
  have 2: "\<forall>m \<in> set ms. \<not> hasItem (storage b) (msgKey lb m) \<and>
        storage (checkUpcomingTidesForAlerts lb amb a data b) (msgKey lb m) = Some ''sent''"
  proof
    fix m assume "m \<in> set ms"
    then have "msgKey lb m \<in> msgKey lb ` set ms" by simp
    with ms(1) show "\<not> hasItem (storage b) (msgKey lb m) \<and>
        storage (checkUpcomingTidesForAlerts lb amb a data b) (msgKey lb m) = Some ''sent''"
      unfolding adds_def by presburger
  qed
  have 3: "serviceWorker amb \<noteq> Controller \<longrightarrow> checkUpcomingTidesForAlerts lb amb a data b = b"
    using ms adds_Nil by metis
  from 1 2 3 show ?thesis
    unfolding n by blast
qed

theorem marker_written_iff_posted_witness:
  "demo_message \<in> set (newlyPosted demo_browser
      (checkUpcomingTidesForAlerts demo_lib demo_ambient demo_app demo_data demo_browser)) \<and>
   msgKey demo_lib demo_message = ''alert_9414290_20250102'' \<and>
   \<not> hasItem (storage demo_browser) ''alert_9414290_20250102'' \<and>
   storage (checkUpcomingTidesForAlerts demo_lib demo_ambient demo_app demo_data demo_browser)
     ''alert_9414290_20250102'' = Some ''sent'' \<and>
   serviceWorker demo_ambient_nc \<noteq> Controller \<and>
   checkUpcomingTidesForAlerts demo_lib demo_ambient_nc demo_app demo_data demo_browser = demo_browser"
proof -
  have h: "demo_message \<in> set (newlyPosted demo_browser
      (checkUpcomingTidesForAlerts demo_lib demo_ambient demo_app demo_data demo_browser))"
    by (simp add: demo_newlyPosted)
  have nc: "serviceWorker demo_ambient_nc \<noteq> Controller"
    by (simp add: demo_ambient_nc_def)
  from marker_written_iff_posted [of demo_lib demo_ambient demo_app demo_data demo_browser] h
  have "\<not> hasItem (storage demo_browser) (msgKey demo_lib demo_message) \<and>
      storage (checkUpcomingTidesForAlerts demo_lib demo_ambient demo_app demo_data demo_browser)
        (msgKey demo_lib demo_message) = Some ''sent''"
    by blast
  moreover from marker_written_iff_posted [of demo_lib demo_ambient_nc demo_app demo_data demo_browser] nc
  have "checkUpcomingTidesForAlerts demo_lib demo_ambient_nc demo_app demo_data demo_browser = demo_browser"
    by blast
  ultimately show ?thesis
    using h nc by (simp add: demo_message_key)
qed

text \<open>
  C4. Over any sequence of runs and of persisted settings: once the marker
  \<open>alert_<stationId>_<yyyyMMdd>\<close> is in storage, no message of that key is posted
  any more; and a browser that has posted nothing yet never comes to hold two posted
  messages of one key. A message about a station and a day has the key of that station
  id and day.
\<close>

theorem at_most_one_alert:
  "(hasItem (storage b) (alertKey lb st day) \<longrightarrow>
      [m \<leftarrow> newlyPosted b (history lb b evs). msgKey lb m = alertKey lb st day] = []) \<and>
   (posted b = [] \<longrightarrow> length [m \<leftarrow> posted (history lb b evs). msgKey lb m = k] \<le> 1)"
proof -
  from history_grows [of lb b evs] obtain ms where ms: "grows lb b ms (history lb b evs)"
    by blast
  then have n: "newlyPosted b (history lb b evs) = ms"
    by (simp add: grows_def newlyPosted_def)
  have "[m \<leftarrow> ms. msgKey lb m = alertKey lb st day] = []"
    if "hasItem (storage b) (alertKey lb st day)"
    using ms that by (auto simp: grows_def filter_empty_conv)
  moreover have "length [m \<leftarrow> posted (history lb b evs). msgKey lb m = k] \<le> 1"
    if "posted b = []"
  proof -
    from ms that have "posted (history lb b evs) = ms" "distinct (map (msgKey lb) ms)"
      by (simp_all add: grows_def)
    then show ?thesis
      using distinct_filter_le1 by metis
  qed
  ultimately show ?thesis
    unfolding n by blast
qed

theorem at_most_one_alert_witness:
  "posted demo_browser = [] \<and>
   posted (history demo_lib demo_browser demo_events) = [demo_message] \<and>
   length [m \<leftarrow> posted (history demo_lib demo_browser demo_events).
             msgKey demo_lib m = ''alert_9414290_20250102''] \<le> 1 \<and>
   hasItem (storage demo_after_first) (alertKey demo_lib (station demo_app) (date demo_day2)) \<and>
   [m \<leftarrow> newlyPosted demo_after_first (history demo_lib demo_after_first (tl demo_events)).
      msgKey demo_lib m = alertKey demo_lib (station demo_app) (date demo_day2)] = []"
proof -
  have e: "posted demo_browser = []"
    by (simp add: demo_browser_def)
  from at_most_one_alert [of demo_browser demo_lib _ _ demo_events "''alert_9414290_20250102''"] e
  have "length [m \<leftarrow> posted (history demo_lib demo_browser demo_events).
             msgKey demo_lib m = ''alert_9414290_20250102''] \<le> 1"
    by blast
  moreover from at_most_one_alert [of demo_after_first demo_lib "station demo_app" "date demo_day2"
      "tl demo_events"] demo_after_first_marker
  have "[m \<leftarrow> newlyPosted demo_after_first (history demo_lib demo_after_first (tl demo_events)).
      msgKey demo_lib m = alertKey demo_lib (station demo_app) (date demo_day2)] = []"
    by blast
  ultimately show ?thesis
    using e demo_history_posted demo_after_first_marker by blast
qed

section \<open>Favorites\<close>

text \<open>
  C7. From the empty list, any sequence of operations leaves a list of favorites in
  which no two entries share an id, and each operation preserves this. When an entry
  has the id of the current station, \<open>toggleFavorite\<close> removes every such entry;
  when none has, it appends the current station, once.
\<close>

theorem favorites_unique_ids:
  "(favorites a0 = [] \<longrightarrow> uniqueIds (favorites (foldl act a0 xs))) \<and>
   (uniqueIds (favorites a) \<longrightarrow>
      uniqueIds (favorites (toggleFavorite a)) \<and> uniqueIds (favorites (removeFavorite fav a))) \<and>
   (list_ex (\<lambda>f. sid f = sid (station a)) (favorites a) \<longrightarrow>
      favorites (toggleFavorite a) = [f \<leftarrow> favorites a. sid f \<noteq> sid (station a)] \<and>
      [f \<leftarrow> favorites (toggleFavorite a). sid f = sid (station a)] = []) \<and>
   (\<not> list_ex (\<lambda>f. sid f = sid (station a)) (favorites a) \<longrightarrow>
      favorites (toggleFavorite a) = favorites a @ [station a] \<and>
      [f \<leftarrow> favorites (toggleFavorite a). sid f = sid (station a)] = [station a])"
proof -
  have 1: "favorites a0 = [] \<longrightarrow> uniqueIds (favorites (foldl act a0 xs))"
    using uniqueIds_foldl [of a0 xs] by (simp add: uniqueIds_def)
  have 2: "uniqueIds (favorites a) \<longrightarrow>
      uniqueIds (favorites (toggleFavorite a)) \<and> uniqueIds (favorites (removeFavorite fav a))"
    by (simp add: uniqueIds_toggle removeFavorite_def uniqueIds_filter)
  have 3: "list_ex (\<lambda>f. sid f = sid (station a)) (favorites a) \<longrightarrow>
      favorites (toggleFavorite a) = [f \<leftarrow> favorites a. sid f \<noteq> sid (station a)] \<and>
      [f \<leftarrow> favorites (toggleFavorite a). sid f = sid (station a)] = []"
    by (simp add: toggleFavorite_present)
  have 4: "\<not> list_ex (\<lambda>f. sid f = sid (station a)) (favorites a) \<longrightarrow>
      favorites (toggleFavorite a) = favorites a @ [station a] \<and>
      [f \<leftarrow> favorites (toggleFavorite a). sid f = sid (station a)] = [station a]"
    by (auto simp: toggleFavorite_absent list_ex_iff filter_empty_conv)
  from 1 2 3 4 show ?thesis by blast
qed

theorem favorites_unique_ids_witness:
  "favorites demo_app = [] \<and>
   uniqueIds (favorites (foldl act demo_app demo_actions)) \<and>
   favorites (foldl act demo_app demo_actions) = [station demo_app, demo_station2] \<and>
   uniqueIds (favorites (removeFavorite demo_station2 (foldl act demo_app demo_actions))) \<and>
   list_ex (\<lambda>f. sid f = sid (station (foldl act demo_app demo_actions)))
     (favorites (foldl act demo_app demo_actions)) \<and>
   favorites (toggleFavorite (foldl act demo_app demo_actions)) = [station demo_app] \<and>
   \<not> list_ex (\<lambda>f. sid f = sid (station demo_app)) (favorites demo_app) \<and>
   favorites (toggleFavorite demo_app) = [station demo_app]"
proof -
  have e: "favorites demo_app = []"
    by (simp add: demo_app_def)
  have p: "list_ex (\<lambda>f. sid f = sid (station (foldl act demo_app demo_actions)))
     (favorites (foldl act demo_app demo_actions))"
    by (simp add: demo_actions_favorites)
  have n: "\<not> list_ex (\<lambda>f. sid f = sid (station demo_app)) (favorites demo_app)"
    by (simp add: e)
  note th1 = favorites_unique_ids [of demo_app demo_actions "foldl act demo_app demo_actions" demo_station2]
  note th2 = favorites_unique_ids [of demo_app demo_actions demo_app demo_station2]
  from th1 e have u: "uniqueIds (favorites (foldl act demo_app demo_actions))"
    by blast
  with th1 have r: "uniqueIds (favorites (removeFavorite demo_station2 (foldl act demo_app demo_actions)))"
    by blast
  from th1 p have "favorites (toggleFavorite (foldl act demo_app demo_actions)) =
      [f \<leftarrow> favorites (foldl act demo_app demo_actions).
         sid f \<noteq> sid (station (foldl act demo_app demo_actions))]"
    by blast
  then have t1: "favorites (toggleFavorite (foldl act demo_app demo_actions)) = [station demo_app]"
    by (simp add: demo_actions_favorites) (simp add: demo_app_def demo_station2_def)
  from th2 n have "favorites (toggleFavorite demo_app) = favorites demo_app @ [station demo_app]"
    by blast
  with e have t2: "favorites (toggleFavorite demo_app) = [station demo_app]"
    by simp
  from e u r p t1 n t2 show ?thesis
    using demo_actions_favorites by blast
qed

section \<open>The list view\<close>




end
